theory Spec2Isabelle
  imports Complex_Main
begin

section \<open>Python values used by \<^verbatim>\<open>jax/_src/compiler.py\<close>\<close>

text \<open>
  A Python \<^verbatim>\<open>str\<close> whose individual characters matter (the module name that is
  sanitised for a file name) is a list of Unicode code points. Strings that are only
  compared with ASCII literals (platform names, the \<^verbatim>\<open>XLA_FLAGS\<close> variable, metric
  names, cache keys) are HOL strings. A finite Python \<^verbatim>\<open>float\<close> is the rational number
  it denotes: comparing two floats and truncating one are exact. Subtracting two floats is
  not, since the difference is rounded to a float again.
\<close>

type_synonym unicode = "nat list"

definition codepoints :: "string \<Rightarrow> unicode" where
  "codepoints s = map of_char s"

text \<open>
  Exceptions. \<open>Raised\<close> is an exception (an instance of \<^verbatim>\<open>Exception\<close>) raised by a
  collaborator that is not part of the file: the persistent cache or the native compiler.
  The other constructors are raised by the file itself.
\<close>

datatype exn =
    ValueError string
  | IndexError string
  | AssertionError
  | Raised string

text \<open>\<^verbatim>\<open>needle in haystack\<close> on strings: a contiguous occurrence.\<close>

fun startswith :: "string \<Rightarrow> string \<Rightarrow> bool" where
  "startswith s [] = True"
| "startswith [] (p # ps) = False"
| "startswith (c # cs) (p # ps) = (c = p \<and> startswith cs ps)"

fun str_contains :: "string \<Rightarrow> string \<Rightarrow> bool" where
  "str_contains [] needle = (needle = [])"
| "str_contains (c # cs) needle = (startswith (c # cs) needle \<or> str_contains cs needle)"

text \<open>\<^verbatim>\<open>str(n)\<close> for a Python integer: decimal digits, with a minus sign when negative.\<close>

definition digit_char :: "nat \<Rightarrow> char" where
  "digit_char d = ''0123456789'' ! d"

function str_nat :: "nat \<Rightarrow> string" where
  "str_nat n = (if n < 10 then [digit_char n] else str_nat (n div 10) @ [digit_char (n mod 10)])"
  by pat_completeness auto
termination
  by (relation "measure (\<lambda>n. n)") auto

definition str_int :: "int \<Rightarrow> string" where
  "str_int i = (if i < 0 then CHR ''-'' # str_nat (nat (- i)) else str_nat (nat i))"

text \<open>\<^verbatim>\<open>int(x)\<close> for a finite float: truncation towards zero.\<close>

definition py_int :: "rat \<Rightarrow> int" where
  "py_int x = (if 0 \<le> x then \<lfloor>x\<rfloor> else \<lceil>x\<rceil>)"

section \<open>Compile options\<close>

text \<open>
  A device assignment as the NumPy array that \<^verbatim>\<open>np.array(device_assignment)\<close> gives:
  its shape and its elements in row-major order. The elements are device ids, or device
  objects exposing an id (then the array's dtype is \<^verbatim>\<open>object\<close>).
\<close>

datatype device = Device (device_id: int)

datatype elems = IntElems "int list" | ObjElems "device list"

record ndarray =
  shape :: "nat list"
  elems :: elems

record device_assignment =
  replica_count :: int
  computation_count :: int
  assigned_ids :: "int list"

record debug_options =
  xla_gpu_cuda_data_dir :: string
  xla_backend_optimization_level :: int
  xla_llvm_disable_expensive_passes :: bool
  xla_test_all_input_layouts :: bool

record executable_build_options =
  use_spmd_partitioning :: bool
  use_auto_spmd_partitioning :: bool
  fdo_profile :: string
  auto_spmd_partitioning_mesh_shape :: "int list"
  auto_spmd_partitioning_mesh_ids :: "int list"
  debug_options :: debug_options

record compile_options =
  num_replicas :: int
  num_partitions :: int
  executable_build_options :: executable_build_options
  device_assignment :: "device_assignment option"
  env_option_overrides :: "(string \<times> string) list"
  profile_version :: int

section \<open>Modules, executables, backends\<close>

text \<open>
  An IR module: its \<^verbatim>\<open>sym_name\<close> attribute and what the two MLIR serialisers
  (\<^verbatim>\<open>_module_to_string\<close>, \<^verbatim>\<open>_module_to_bytecode\<close>) print for it.
\<close>

record ir_module =
  sym_name :: unicode
  module_to_string :: string
  module_to_bytecode :: string

datatype executable = LoadedExecutable string

type_synonym host_callback = string

text \<open>What \<^verbatim>\<open>backend.compile\<close> receives as its first argument.\<close>

datatype compile_input = Bytecode string | ModuleObject ir_module

text \<open>
  A backend client. \<open>needs_str_ir\<close> is \<open>None\<close> when the object has no such attribute.
  \<open>compile\<close> is the native entry point; its third argument is \<open>None\<close> when the
  \<^verbatim>\<open>host_callbacks\<close> keyword is not passed. It returns the exception it raises, or the
  executable.
\<close>

record backend =
  platform :: string
  needs_str_ir :: "bool option"
  compile :: "compile_input \<Rightarrow> compile_options \<Rightarrow> host_callback list option \<Rightarrow> string + executable"

section \<open>Observable effects\<close>

text \<open>The log records and other effects of the file, in the order they happen.\<close>

datatype event =
    Debug_get_compile_options int int ndarray
  | Debug_profile_version_from_flag int
  | Debug_profile_version_autofdo int
  | Error_profile_version_is_zero
  | Info_cache_hit unicode
  | Info_not_writing_host_callbacks unicode
  | Info_not_writing_too_fast unicode rat rat
  | Info_writing_took_at_least unicode rat rat
  | Warn_error_reading unicode string
  | Warn_error_writing unicode string
  | Record_event_duration_secs string rat
  | Call_get_cache_key unicode bool
  | Call_get_executable_and_time string
  | Call_put_executable_and_time string unicode executable int
  | Call_compile compile_input "host_callback list option"
  | Write_text string unicode string

text \<open>
  The process state the file reads and writes: the effects so far, how often
  \<^verbatim>\<open>time.monotonic()\<close> has been read, and \<^verbatim>\<open>_ir_dump_counter\<close>.
\<close>

record world =
  trace :: "event list"
  ticks :: nat
  ir_dump_counter :: nat

text \<open>
  Configuration and collaborators of \<^verbatim>\<open>compile_or_get_cached\<close>. The module
  \<^verbatim>\<open>compilation_cache\<close> is not part of the file, so its four functions are parameters:
  \<open>get_executable_and_time\<close> and \<open>put_executable_and_time\<close> return the exception they
  raise, if any. \<open>monotonic k\<close> is the \<open>k\<close>-th reading of \<^verbatim>\<open>time.monotonic()\<close>.
  \<open>float_sub a b\<close> is Python's \<^verbatim>\<open>a - b\<close> on two floats, the difference rounded to a
  float; the measured compile time, which decides whether the cache is written, is such
  a difference.
  \<open>XLA_FLAGS\<close> is \<open>None\<close> when the environment variable is not set.
\<close>

record config =
  DUMP_IR_TO :: string
  XLA_FLAGS :: "string option"
  is_initialized :: bool
  jax_use_original_compilation_cache_key_generation :: bool
  jax_raise_persistent_cache_errors :: bool
  jax_persistent_cache_min_compile_time_secs :: rat
  monotonic :: "nat \<Rightarrow> rat"
  float_sub :: "rat \<Rightarrow> rat \<Rightarrow> rat"
  get_cache_key :: "ir_module \<Rightarrow> ndarray \<Rightarrow> compile_options \<Rightarrow> backend \<Rightarrow> bool \<Rightarrow> string"
  get_executable_and_time ::
    "string \<Rightarrow> compile_options \<Rightarrow> backend \<Rightarrow> string + (executable option \<times> int option)"
  put_executable_and_time ::
    "string \<Rightarrow> unicode \<Rightarrow> executable \<Rightarrow> backend \<Rightarrow> int \<Rightarrow> string option"

definition emit :: "event \<Rightarrow> world \<Rightarrow> world" where
  "emit e w = w\<lparr>trace := trace w @ [e]\<rparr>"

definition time_monotonic :: "config \<Rightarrow> world \<Rightarrow> rat \<times> world" where
  "time_monotonic cfg w = (monotonic cfg (ticks w), w\<lparr>ticks := Suc (ticks w)\<rparr>)"

section \<open>\<^verbatim>\<open>get_compile_options\<close>\<close>

text \<open>
  What \<^verbatim>\<open>get_compile_options\<close> reads from outside the file: a fresh
  \<^verbatim>\<open>xc.CompileOptions()\<close>, \<^verbatim>\<open>lib.cuda_path\<close>, two configuration values, the value that
  the replaceable \<^verbatim>\<open>get_latest_profile_version\<close> returns, NumPy's \<^verbatim>\<open>str\<close> of an array
  and \<^verbatim>\<open>xc.DeviceAssignment.create\<close> (which returns the exception it raises, or the
  assignment).
\<close>

record options_env =
  new_CompileOptions :: compile_options
  cuda_path :: "string option"
  DISABLE_MOST_OPTIMIZATIONS :: bool
  jax_xla_profile_version :: int
  get_latest_profile_version :: int
  array_str :: "ndarray \<Rightarrow> string"
  DeviceAssignment_create :: "ndarray \<Rightarrow> string + device_assignment"

definition ndim :: "ndarray \<Rightarrow> nat" where
  "ndim a = length (shape a)"

text \<open>\<^verbatim>\<open>a[:, None]\<close>: a new axis of length 1 in second position.\<close>

definition add_axis :: "ndarray \<Rightarrow> ndarray" where
  "add_axis a = a\<lparr>shape := take 1 (shape a) @ [1] @ drop 1 (shape a)\<rparr>"

text \<open>\<^verbatim>\<open>a.shape[i]\<close>: indexing the shape tuple raises \<^verbatim>\<open>IndexError\<close> out of range.\<close>

definition shape_at :: "ndarray \<Rightarrow> nat \<Rightarrow> exn + int" where
  "shape_at a i = (if i < length (shape a) then Inr (int (shape a ! i))
                   else Inl (IndexError ''tuple index out of range''))"

definition is_object_dtype :: "ndarray \<Rightarrow> bool" where
  "is_object_dtype a = (case elems a of ObjElems ds \<Rightarrow> True | IntElems xs \<Rightarrow> False)"

text \<open>\<^verbatim>\<open>np.vectorize(lambda d: d.id, otypes=[int])(a)\<close>\<close>

definition vectorize_id :: "ndarray \<Rightarrow> ndarray" where
  "vectorize_id a = (case elems a of ObjElems ds \<Rightarrow> a\<lparr>elems := IntElems (map device_id ds)\<rparr>
                                    | IntElems xs \<Rightarrow> a)"

definition mismatch_message :: "options_env \<Rightarrow> string \<Rightarrow> ndarray \<Rightarrow> int \<Rightarrow> string" where
  "mismatch_message env what a n =
     ''device_assignment does not match '' @ what @ '': '' @ array_str env a @ '' vs ''
       @ str_int n @ ''.''"

text \<open>
  Lines 116 to 128: the optional reshape and the two shape checks. The result is the
  array that goes on to \<^verbatim>\<open>xc.DeviceAssignment.create\<close>.
\<close>

definition check_device_assignment ::
  "options_env \<Rightarrow> int \<Rightarrow> int \<Rightarrow> ndarray \<Rightarrow> exn + ndarray" where
  "check_device_assignment env nr np da =
     (let a = (if ndim da = 1 \<and> np = 1 then add_axis da else da)
      in (case shape_at a 0 of
            Inl e \<Rightarrow> Inl e
          | Inr s0 \<Rightarrow>
              if nr \<noteq> s0 then Inl (ValueError (mismatch_message env ''num_replicas'' a nr))
              else
                (case shape_at a 1 of
                   Inl e \<Rightarrow> Inl e
                 | Inr s1 \<Rightarrow>
                     if np \<noteq> s1
                     then Inl (ValueError (mismatch_message env ''num_partitions'' a np))
                     else Inr a)))"

text \<open>Lines 130 to 135: the ids, the assignment object and the two assertions.\<close>

definition create_device_assignment ::
  "options_env \<Rightarrow> int \<Rightarrow> int \<Rightarrow> ndarray \<Rightarrow> exn + device_assignment" where
  "create_device_assignment env nr np a =
     (let a1 = (if is_object_dtype a then vectorize_id a else a)
      in (case DeviceAssignment_create env a1 of
            Inl ex \<Rightarrow> Inl (Raised ex)
          | Inr d \<Rightarrow>
              if replica_count d \<noteq> nr then Inl AssertionError
              else if computation_count d \<noteq> np then Inl AssertionError
              else Inr d))"

definition convert_device_assignment ::
  "options_env \<Rightarrow> int \<Rightarrow> int \<Rightarrow> ndarray \<Rightarrow> exn + device_assignment" where
  "convert_device_assignment env nr np da =
     (case check_device_assignment env nr np da of
        Inl e \<Rightarrow> Inl e
      | Inr a \<Rightarrow> create_device_assignment env nr np a)"

text \<open>Lines 157 to 174: the profile version and the log record that goes with it.\<close>

definition resolve_profile_version :: "options_env \<Rightarrow> int \<times> event list" where
  "resolve_profile_version env =
     (if jax_xla_profile_version env > 0
      then (jax_xla_profile_version env,
            [Debug_profile_version_from_flag (jax_xla_profile_version env)])
      else
        let fdo_profile_version = get_latest_profile_version env
        in if fdo_profile_version \<noteq> 0
           then (fdo_profile_version, [Debug_profile_version_autofdo fdo_profile_version])
           else (- 1, [Error_profile_version_is_zero]))"

text \<open>
  The function returns its result, or the exception it raises, with the log records it
  emitted. The three option objects that the source mutates through aliases are built
  here as three records and put together at the end.
\<close>

definition get_compile_options ::
  "options_env \<Rightarrow> int \<Rightarrow> int \<Rightarrow> ndarray option \<Rightarrow> bool \<Rightarrow> bool \<Rightarrow> int list option
    \<Rightarrow> int list option \<Rightarrow> (string \<times> string) list option \<Rightarrow> string option
    \<Rightarrow> (exn + compile_options) \<times> event list" where
  "get_compile_options env nr np da use_spmd use_auto mesh_shape mesh_ids env_overrides fdo =
     (let co = (new_CompileOptions env)\<lparr>num_replicas := nr, num_partitions := np\<rparr>;
          bo = (executable_build_options co)
                 \<lparr>use_spmd_partitioning := use_spmd, use_auto_spmd_partitioning := use_auto\<rparr>;
          bo1 = (case fdo of None \<Rightarrow> bo | Some p \<Rightarrow> bo\<lparr>fdo_profile := p\<rparr>);
          bo2 = (if use_auto
                 then bo1\<lparr>auto_spmd_partitioning_mesh_shape :=
                             (case mesh_shape of None \<Rightarrow> [] | Some xs \<Rightarrow> xs),
                           auto_spmd_partitioning_mesh_ids :=
                             (case mesh_ids of None \<Rightarrow> [] | Some xs \<Rightarrow> xs)\<rparr>
                 else bo1);
          (r, log1) = (case da of
                         None \<Rightarrow> (Inr (device_assignment co), [])
                       | Some a \<Rightarrow>
                           (case convert_device_assignment env nr np a of
                              Inl e \<Rightarrow> (Inl e, [Debug_get_compile_options nr np a])
                            | Inr d \<Rightarrow> (Inr (Some d), [Debug_get_compile_options nr np a])))
      in (case r of
            Inl e \<Rightarrow> (Inl e, log1)
          | Inr dev \<Rightarrow>
              (let co1 = co\<lparr>device_assignment := dev\<rparr>;
                   co2 = (case env_overrides of None \<Rightarrow> co1
                          | Some kvs \<Rightarrow> co1\<lparr>env_option_overrides := kvs\<rparr>);
                   dbg = debug_options bo2;
                   dbg1 = (case cuda_path env of None \<Rightarrow> dbg
                           | Some p \<Rightarrow> dbg\<lparr>xla_gpu_cuda_data_dir := p\<rparr>);
                   dbg2 = (if DISABLE_MOST_OPTIMIZATIONS env
                           then dbg1\<lparr>xla_backend_optimization_level := 0,
                                     xla_llvm_disable_expensive_passes := True,
                                     xla_test_all_input_layouts := False\<rparr>
                           else dbg1);
                   (v, log2) = resolve_profile_version env
               in (Inr (co2\<lparr>executable_build_options := bo2\<lparr>debug_options := dbg2\<rparr>,
                            profile_version := v\<rparr>),
                   log1 @ log2))))"

section \<open>\<^verbatim>\<open>backend_compile\<close>\<close>

definition getattr_needs_str_ir :: "backend \<Rightarrow> bool" where
  "getattr_needs_str_ir b = (case needs_str_ir b of None \<Rightarrow> True | Some v \<Rightarrow> v)"

definition call_compile ::
  "backend \<Rightarrow> compile_input \<Rightarrow> compile_options \<Rightarrow> host_callback list option \<Rightarrow> world
    \<Rightarrow> (exn + executable) \<times> world" where
  "call_compile b built_c options hc w =
     (case compile b built_c options hc of
        Inl ex \<Rightarrow> (Inl (Raised ex), emit (Call_compile built_c hc) w)
      | Inr exe \<Rightarrow> (Inr exe, emit (Call_compile built_c hc) w))"

definition backend_compile ::
  "backend \<Rightarrow> ir_module \<Rightarrow> compile_options \<Rightarrow> host_callback list \<Rightarrow> world
    \<Rightarrow> (exn + executable) \<times> world" where
  "backend_compile b m options host_callbacks w =
     (let built_c = (if getattr_needs_str_ir b then Bytecode (module_to_bytecode m)
                     else ModuleObject m)
      in if host_callbacks \<noteq> [] then call_compile b built_c options (Some host_callbacks) w
         else call_compile b built_c options None w)"

section \<open>Dumping the IR\<close>

text \<open>
  \<^verbatim>\<open>re.sub(r'[^\w.)( -]', '', s)\<close> deletes every character that the negated class
  matches. The pattern is a \<^verbatim>\<open>str\<close> pattern compiled without flags, so \<^verbatim>\<open>\w\<close> is
  Unicode-aware: it matches the underscore and every code point for which
  \<^verbatim>\<open>str.isalnum\<close> holds. On ASCII that is \<^verbatim>\<open>[A-Za-z0-9]\<close>; beyond ASCII it is a
  table of the Unicode database, here the parameter \<open>isalnum\<close>.
\<close>

definition ascii_alnum :: "nat \<Rightarrow> bool" where
  "ascii_alnum c = ((48 \<le> c \<and> c \<le> 57) \<or> (65 \<le> c \<and> c \<le> 90) \<or> (97 \<le> c \<and> c \<le> 122))"

definition word_char :: "(nat \<Rightarrow> bool) \<Rightarrow> nat \<Rightarrow> bool" where
  "word_char isalnum c = (c = 95 \<or> (if c < 128 then ascii_alnum c else isalnum c))"

definition in_class :: "(nat \<Rightarrow> bool) \<Rightarrow> nat \<Rightarrow> bool" where
  "in_class isalnum c = (word_char isalnum c \<or> c = 46 \<or> c = 41 \<or> c = 40 \<or> c = 32 \<or> c = 45)"

definition make_string_safe_for_filename :: "(nat \<Rightarrow> bool) \<Rightarrow> unicode \<Rightarrow> unicode" where
  "make_string_safe_for_filename isalnum s = filter (\<lambda>c. in_class isalnum c) s"

text \<open>
  The letters of the Latin-1 supplement (U+00C0 to U+00FF without the multiplication and
  division signs), for which \<^verbatim>\<open>str.isalnum\<close> holds.
\<close>

definition latin1_letter :: "nat \<Rightarrow> bool" where
  "latin1_letter c = (192 \<le> c \<and> c \<le> 255 \<and> c \<noteq> 215 \<and> c \<noteq> 247)"

definition dump_ir_to_file ::
  "(nat \<Rightarrow> bool) \<Rightarrow> config \<Rightarrow> unicode \<Rightarrow> string \<Rightarrow> world \<Rightarrow> world" where
  "dump_ir_to_file isalnum cfg name ir w =
     (let n = ir_dump_counter w;
          w1 = w\<lparr>ir_dump_counter := Suc n\<rparr>;
          file = codepoints ''jax_ir'' @ codepoints (str_nat n) @ codepoints ''_''
                 @ make_string_safe_for_filename isalnum name @ codepoints ''.mlir''
      in emit (Write_text (DUMP_IR_TO cfg) file ir) w1)"

section \<open>The persistent cache: \<^verbatim>\<open>_cache_read\<close>, \<^verbatim>\<open>_cache_write\<close>\<close>

definition cache_read ::
  "config \<Rightarrow> unicode \<Rightarrow> string \<Rightarrow> compile_options \<Rightarrow> backend \<Rightarrow> world
    \<Rightarrow> (exn + (executable option \<times> int option)) \<times> world" where
  "cache_read cfg module_name cache_key options b w =
     (let w1 = emit (Call_get_executable_and_time cache_key) w
      in case get_executable_and_time cfg cache_key options b of
           Inr r \<Rightarrow> (Inr r, w1)
         | Inl ex \<Rightarrow>
             if jax_raise_persistent_cache_errors cfg then (Inl (Raised ex), w1)
             else (Inr (None, None), emit (Warn_error_reading module_name ex) w1))"

definition cache_write ::
  "config \<Rightarrow> string \<Rightarrow> rat \<Rightarrow> unicode \<Rightarrow> backend \<Rightarrow> executable \<Rightarrow> host_callback list
    \<Rightarrow> world \<Rightarrow> (exn + unit) \<times> world" where
  "cache_write cfg cache_key compile_time_secs module_name b exe host_callbacks w =
     (if host_callbacks \<noteq> [] then
        (Inr (), emit (Info_not_writing_host_callbacks module_name) w)
      else
        let min_compile_time = jax_persistent_cache_min_compile_time_secs cfg
        in if min_compile_time \<noteq> 0 \<and> compile_time_secs < min_compile_time then
             (Inr (), emit (Info_not_writing_too_fast module_name min_compile_time
                              compile_time_secs) w)
           else
             let w1 = (if min_compile_time \<noteq> 0
                       then emit (Info_writing_took_at_least module_name min_compile_time
                                    compile_time_secs) w
                       else w);
                 secs = py_int compile_time_secs;
                 w2 = emit (Call_put_executable_and_time cache_key module_name exe secs) w1
             in case put_executable_and_time cfg cache_key module_name exe b secs of
                  None \<Rightarrow> (Inr (), w2)
                | Some ex \<Rightarrow>
                    if jax_raise_persistent_cache_errors cfg then (Inl (Raised ex), w2)
                    else (Inr (), emit (Warn_error_writing module_name ex) w2))"

section \<open>\<^verbatim>\<open>compile_or_get_cached\<close>\<close>

definition supported_platforms :: "config \<Rightarrow> string list" where
  "supported_platforms cfg =
     (if str_contains (case XLA_FLAGS cfg of None \<Rightarrow> [] | Some v \<Rightarrow> v)
           ''--xla_cpu_use_xla_runtime=true''
      then [''tpu'', ''gpu''] @ [''cpu'']
      else [''tpu'', ''gpu''])"

definition use_compilation_cache :: "config \<Rightarrow> backend \<Rightarrow> bool" where
  "use_compilation_cache cfg b =
     (is_initialized cfg \<and> platform b \<in> set (supported_platforms cfg))"

text \<open>Lines 265 to 276: the branch taken when an executable was retrieved.\<close>

definition cache_hit ::
  "unicode \<Rightarrow> executable \<Rightarrow> int option \<Rightarrow> rat \<Rightarrow> world \<Rightarrow> (exn + executable) \<times> world" where
  "cache_hit module_name retrieved_executable retrieved_compile_time cache_retrieval_time w =
     (case retrieved_compile_time of
        None \<Rightarrow> (Inl AssertionError, w)
      | Some secs \<Rightarrow>
          (let w1 = emit (Info_cache_hit module_name) w;
               w2 = emit (Record_event_duration_secs
                            ''/jax/compilation_cache/cache_retrieval_time_sec''
                            cache_retrieval_time) w1;
               w3 = emit (Record_event_duration_secs
                            ''/jax/compilation_cache/original_compile_time_saved_sec''
                            (of_int secs - cache_retrieval_time)) w2
           in (Inr retrieved_executable, w3)))"

text \<open>Lines 278 to 284: the branch taken when no executable was retrieved.\<close>

definition cache_miss ::
  "config \<Rightarrow> backend \<Rightarrow> ir_module \<Rightarrow> compile_options \<Rightarrow> host_callback list \<Rightarrow> unicode
    \<Rightarrow> string \<Rightarrow> world \<Rightarrow> (exn + executable) \<times> world" where
  "cache_miss cfg b computation options host_callbacks module_name cache_key w =
     (let (start_time, w1) = time_monotonic cfg w;
          (c, w2) = backend_compile b computation options host_callbacks w1
      in (case c of
            Inl ex \<Rightarrow> (Inl ex, w2)
          | Inr exe \<Rightarrow>
              (let (t, w3) = time_monotonic cfg w2;
                   compile_time = float_sub cfg t start_time;
                   (wr, w4) = cache_write cfg cache_key compile_time module_name b exe
                                host_callbacks w3
               in (case wr of
                     Inl ex \<Rightarrow> (Inl ex, w4)
                   | Inr u \<Rightarrow> (Inr exe, w4)))))"

text \<open>Lines 238 and 239: the IR is dumped when a directory is configured.\<close>

definition after_dump :: "(nat \<Rightarrow> bool) \<Rightarrow> config \<Rightarrow> ir_module \<Rightarrow> world \<Rightarrow> world" where
  "after_dump isalnum cfg computation w =
     (if DUMP_IR_TO cfg \<noteq> []
      then dump_ir_to_file isalnum cfg (sym_name computation) (module_to_string computation) w
      else w)"

text \<open>
  The whole function. The module is taken to carry a \<^verbatim>\<open>sym_name\<close> attribute, and
  writing the dump file to succeed.
\<close>

definition compile_or_get_cached ::
  "(nat \<Rightarrow> bool) \<Rightarrow> config \<Rightarrow> backend \<Rightarrow> ir_module \<Rightarrow> ndarray \<Rightarrow> compile_options
    \<Rightarrow> host_callback list \<Rightarrow> world \<Rightarrow> (exn + executable) \<times> world" where
  "compile_or_get_cached isalnum cfg b computation devices options host_callbacks w =
     (let module_name = sym_name computation;
          w0 = after_dump isalnum cfg computation w
      in if \<not> use_compilation_cache cfg b then
           backend_compile b computation options host_callbacks w0
         else
           (let use_original = jax_use_original_compilation_cache_key_generation cfg;
                cache_key = get_cache_key cfg computation devices options b use_original;
                w1 = emit (Call_get_cache_key module_name use_original) w0;
                (cache_retrieval_start, w2) = time_monotonic cfg w1;
                (r, w3) = cache_read cfg module_name cache_key options b w2
            in (case r of
                  Inl ex \<Rightarrow> (Inl ex, w3)
                | Inr (retrieved_executable, retrieved_compile_time) \<Rightarrow>
                    (let (t, w4) = time_monotonic cfg w3;
                         cache_retrieval_time = t - cache_retrieval_start
                     in (case retrieved_executable of
                           Some exe \<Rightarrow>
                             cache_hit module_name exe retrieved_compile_time
                               cache_retrieval_time w4
                         | None \<Rightarrow>
                             cache_miss cfg b computation options host_callbacks module_name
                               cache_key w4)))))"

section \<open>Notions used to state the properties\<close>

text \<open>The effects that happened between two states of the process.\<close>

definition new_events :: "world \<Rightarrow> world \<Rightarrow> event list" where
  "new_events w w' = drop (length (trace w)) (trace w')"

text \<open>The three ways of touching the persistent cache: key derivation, lookup, write.\<close>

definition is_cache_event :: "event \<Rightarrow> bool" where
  "is_cache_event e =
     (case e of Call_get_cache_key n u \<Rightarrow> True
              | Call_get_executable_and_time k \<Rightarrow> True
              | Call_put_executable_and_time k n x s \<Rightarrow> True
              | _ \<Rightarrow> False)"

definition is_put_event :: "event \<Rightarrow> bool" where
  "is_put_event e = (case e of Call_put_executable_and_time k n x s \<Rightarrow> True | _ \<Rightarrow> False)"

definition is_compile_event :: "event \<Rightarrow> bool" where
  "is_compile_event e = (case e of Call_compile c h \<Rightarrow> True | _ \<Rightarrow> False)"

definition is_metric_event :: "event \<Rightarrow> bool" where
  "is_metric_event e = (case e of Record_event_duration_secs n v \<Rightarrow> True | _ \<Rightarrow> False)"

text \<open>
  Eligibility in the words of the specification: the cache is initialised, and the
  platform is tpu or gpu, or cpu with the runtime flag present in \<^verbatim>\<open>XLA_FLAGS\<close>.
\<close>

definition cache_eligible :: "config \<Rightarrow> backend \<Rightarrow> bool" where
  "cache_eligible cfg b =
     (is_initialized cfg \<and>
      (platform b = ''tpu'' \<or> platform b = ''gpu'' \<or>
       (platform b = ''cpu'' \<and>
        str_contains (case XLA_FLAGS cfg of None \<Rightarrow> [] | Some v \<Rightarrow> v)
          ''--xla_cpu_use_xla_runtime=true'')))"

text \<open>The character set of the specification: \<^verbatim>\<open>[A-Za-z0-9_.() -]\<close>.\<close>

definition in_ascii_class :: "nat \<Rightarrow> bool" where
  "in_ascii_class c =
     ((48 \<le> c \<and> c \<le> 57) \<or> (65 \<le> c \<and> c \<le> 90) \<or> (97 \<le> c \<and> c \<le> 122)
      \<or> c = 95 \<or> c = 46 \<or> c = 40 \<or> c = 41 \<or> c = 32 \<or> c = 45)"

text \<open>What \<^verbatim>\<open>backend_compile\<close> hands to the native entry point.\<close>

definition built_c :: "backend \<Rightarrow> ir_module \<Rightarrow> compile_input" where
  "built_c b m = (if getattr_needs_str_ir b then Bytecode (module_to_bytecode m) else ModuleObject m)"

definition callbacks_arg :: "host_callback list \<Rightarrow> host_callback list option" where
  "callbacks_arg hc = (if hc = [] then None else Some hc)"

section \<open>Example values\<close>

definition example_module :: ir_module where
  "example_module = \<lparr>sym_name = codepoints ''jit_f'', module_to_string = ''module @jit_f {}'',
                      module_to_bytecode = ''ML0''\<rparr>"

definition example_options :: compile_options where
  "example_options =
     \<lparr>num_replicas = 1, num_partitions = 1,
      executable_build_options =
        \<lparr>use_spmd_partitioning = False, use_auto_spmd_partitioning = False, fdo_profile = [],
         auto_spmd_partitioning_mesh_shape = [], auto_spmd_partitioning_mesh_ids = [],
         debug_options =
           \<lparr>xla_gpu_cuda_data_dir = [], xla_backend_optimization_level = 2,
            xla_llvm_disable_expensive_passes = False, xla_test_all_input_layouts = False\<rparr>\<rparr>,
      device_assignment = None, env_option_overrides = [], profile_version = 0\<rparr>"

definition example_backend :: "string \<Rightarrow> bool option \<Rightarrow> backend" where
  "example_backend p n =
     \<lparr>platform = p, needs_str_ir = n,
      compile = (\<lambda>c opts hc. Inr (LoadedExecutable ''fresh''))\<rparr>"

definition world0 :: world where
  "world0 = \<lparr>trace = [], ticks = 0, ir_dump_counter = 0\<rparr>"

definition example_devices :: ndarray where
  "example_devices = \<lparr>shape = [1], elems = IntElems [0]\<rparr>"

text \<open>
  Float subtraction on the readings of the two example clocks. The differences of
  \<open>example_clock\<close> are floats themselves; the difference of the floats \<^verbatim>\<open>1.2\<close> and
  \<^verbatim>\<open>0.2\<close> is \<open>1 - 1 / 2 ^ 54\<close>, which lies halfway between two floats and is rounded
  to \<^verbatim>\<open>1.0\<close>.
\<close>

definition example_float_sub :: "rat \<Rightarrow> rat \<Rightarrow> rat" where
  "example_float_sub a b =
     (if a - b = 18014398509481983 / 18014398509481984 then 1 else a - b)"

text \<open>
  A configuration without IR dump: whether the cache is initialised, \<^verbatim>\<open>XLA_FLAGS\<close>,
  the raise-errors flag, the threshold, the clock, what a lookup gives and what a write
  raises.
\<close>

definition example_config ::
  "bool \<Rightarrow> string option \<Rightarrow> bool \<Rightarrow> rat \<Rightarrow> (nat \<Rightarrow> rat)
    \<Rightarrow> string + (executable option \<times> int option) \<Rightarrow> string option \<Rightarrow> config" where
  "example_config init flags strict min_secs clock got put_fault =
     \<lparr>DUMP_IR_TO = [], XLA_FLAGS = flags, is_initialized = init,
      jax_use_original_compilation_cache_key_generation = False,
      jax_raise_persistent_cache_errors = strict,
      jax_persistent_cache_min_compile_time_secs = min_secs,
      monotonic = clock,
      float_sub = example_float_sub,
      get_cache_key = (\<lambda>m devices opts b original. ''K''),
      get_executable_and_time = (\<lambda>key opts b. got),
      put_executable_and_time = (\<lambda>key name exe b secs. put_fault)\<rparr>"

text \<open>A clock that advances by 5.75 seconds between two readings.\<close>

definition example_clock :: "nat \<Rightarrow> rat" where
  "example_clock k = of_nat k * (23 / 4)"

text \<open>
  A clock whose third and fourth readings are the floats \<^verbatim>\<open>0.2\<close> and \<^verbatim>\<open>1.2\<close>, and whose
  other readings are 0.
\<close>

definition fifths_clock :: "nat \<Rightarrow> rat" where
  "fifths_clock k =
     (if k = 2 then 3602879701896397 / 18014398509481984
      else if k = 3 then 5404319552844595 / 4503599627370496
      else 0)"

text \<open>
  An environment for \<^verbatim>\<open>get_compile_options\<close>: the configured and the latest profile
  version are given. \<open>array_str\<close> is what NumPy prints for the two arrays that the
  examples print, \<^verbatim>\<open>[[0, 1]]\<close> and the column \<^verbatim>\<open>[[0], [1]]\<close>;
  \<open>DeviceAssignment_create\<close> reads the two counts off the shape.
\<close>

definition example_env :: "int \<Rightarrow> int \<Rightarrow> options_env" where
  "example_env flag_version latest =
     \<lparr>new_CompileOptions = example_options, cuda_path = None,
      DISABLE_MOST_OPTIMIZATIONS = False, jax_xla_profile_version = flag_version,
      get_latest_profile_version = latest,
      array_str = (\<lambda>a. if shape a = [1, 2] then ''[[0 1]]''
                        else ''[[0]'' @ [CHR 0x0A] @ '' [1]]''),
      DeviceAssignment_create =
        (\<lambda>a. Inr \<lparr>replica_count = int (shape a ! 0), computation_count = int (shape a ! 1),
                   assigned_ids = (case elems a of IntElems xs \<Rightarrow> xs | ObjElems ds \<Rightarrow> [])\<rparr>)\<rparr>"

text \<open>The effects of \<^verbatim>\<open>_cache_write\<close>, as a list.\<close>

definition write_events ::
  "config \<Rightarrow> string \<Rightarrow> rat \<Rightarrow> unicode \<Rightarrow> backend \<Rightarrow> executable \<Rightarrow> host_callback list
    \<Rightarrow> event list" where
  "write_events cfg k ct n b exe hc =
     (if hc \<noteq> [] then [Info_not_writing_host_callbacks n]
      else if jax_persistent_cache_min_compile_time_secs cfg \<noteq> 0
              \<and> ct < jax_persistent_cache_min_compile_time_secs cfg
      then [Info_not_writing_too_fast n (jax_persistent_cache_min_compile_time_secs cfg) ct]
      else (if jax_persistent_cache_min_compile_time_secs cfg \<noteq> 0
            then [Info_writing_took_at_least n (jax_persistent_cache_min_compile_time_secs cfg) ct]
            else [])
           @ [Call_put_executable_and_time k n exe (py_int ct)]
           @ (case put_executable_and_time cfg k n exe b (py_int ct) of
                None \<Rightarrow> []
              | Some ex \<Rightarrow> if jax_raise_persistent_cache_errors cfg then []
                           else [Warn_error_writing n ex]))"

text \<open>The two admission gates of the specification.\<close>

definition admitted :: "config \<Rightarrow> rat \<Rightarrow> host_callback list \<Rightarrow> bool" where
  "admitted cfg ct hc =
     (hc = [] \<and> (jax_persistent_cache_min_compile_time_secs cfg = 0
                 \<or> jax_persistent_cache_min_compile_time_secs cfg \<le> ct))"

text \<open>The effects of a lookup, of a hit, of a miss and of the optional IR dump, as lists.\<close>

definition lookup_events :: "config \<Rightarrow> unicode \<Rightarrow> string \<Rightarrow> compile_options \<Rightarrow> backend \<Rightarrow> event list" where
  "lookup_events cfg n k opts b =
     Call_get_executable_and_time k #
       (case get_executable_and_time cfg k opts b of
          Inl ex \<Rightarrow> if jax_raise_persistent_cache_errors cfg then [] else [Warn_error_reading n ex]
        | Inr r \<Rightarrow> [])"

definition hit_events :: "unicode \<Rightarrow> int option \<Rightarrow> rat \<Rightarrow> event list" where
  "hit_events n rt lat =
     (case rt of
        None \<Rightarrow> []
      | Some secs \<Rightarrow>
          [Info_cache_hit n,
           Record_event_duration_secs ''/jax/compilation_cache/cache_retrieval_time_sec'' lat,
           Record_event_duration_secs ''/jax/compilation_cache/original_compile_time_saved_sec''
             (of_int secs - lat)])"

definition miss_events ::
  "config \<Rightarrow> backend \<Rightarrow> ir_module \<Rightarrow> compile_options \<Rightarrow> host_callback list \<Rightarrow> unicode
    \<Rightarrow> string \<Rightarrow> rat \<Rightarrow> event list" where
  "miss_events cfg b m opts hc n k ct =
     Call_compile (built_c b m) (callbacks_arg hc) #
       (case compile b (built_c b m) opts (callbacks_arg hc) of
          Inl ex \<Rightarrow> []
        | Inr exe \<Rightarrow> write_events cfg k ct n b exe hc)"

definition dump_events :: "(nat \<Rightarrow> bool) \<Rightarrow> config \<Rightarrow> ir_module \<Rightarrow> world \<Rightarrow> event list" where
  "dump_events isalnum cfg m w = new_events w (after_dump isalnum cfg m w)"

text \<open>What a miss returns: the compiler's or the cache writer's exception, or the executable.\<close>

definition miss_result ::
  "config \<Rightarrow> backend \<Rightarrow> ir_module \<Rightarrow> compile_options \<Rightarrow> host_callback list \<Rightarrow> unicode
    \<Rightarrow> string \<Rightarrow> rat \<Rightarrow> exn + executable" where
  "miss_result cfg b m opts hc n k ct =
     (case compile b (built_c b m) opts (callbacks_arg hc) of
        Inl ex \<Rightarrow> Inl (Raised ex)
      | Inr exe \<Rightarrow>
          if admitted cfg ct hc \<and> jax_raise_persistent_cache_errors cfg
          then (case put_executable_and_time cfg k n exe b (py_int ct) of
                  None \<Rightarrow> Inr exe
                | Some ex \<Rightarrow> Inl (Raised ex))
          else Inr exe)"

text \<open>
  The key of a request, and the two durations that \<^verbatim>\<open>compile_or_get_cached\<close> measures
  when it starts in state \<open>w\<close>: the lookup lies between the first two clock readings, the
  compilation between the third and the fourth. The compile time is the float difference
  that \<^verbatim>\<open>_cache_write\<close> receives. The lookup latency is only recorded; it is given as the
  exact difference of the two readings, which the float subtraction rounds to the nearest
  float.
\<close>

definition request_key ::
  "config \<Rightarrow> ir_module \<Rightarrow> ndarray \<Rightarrow> compile_options \<Rightarrow> backend \<Rightarrow> string" where
  "request_key cfg m devices opts b =
     get_cache_key cfg m devices opts b (jax_use_original_compilation_cache_key_generation cfg)"

definition lookup_latency :: "config \<Rightarrow> world \<Rightarrow> rat" where
  "lookup_latency cfg w = monotonic cfg (Suc (ticks w)) - monotonic cfg (ticks w)"

definition measured_compile_time :: "config \<Rightarrow> world \<Rightarrow> rat" where
  "measured_compile_time cfg w =
     float_sub cfg (monotonic cfg (Suc (Suc (Suc (ticks w))))) (monotonic cfg (Suc (Suc (ticks w))))"

text \<open>The same configuration with a cache in which every lookup finds nothing.\<close>

definition with_empty_cache :: "config \<Rightarrow> config" where
  "with_empty_cache cfg = cfg\<lparr>get_executable_and_time := (\<lambda>k opts b. Inr (None, None))\<rparr>"

text \<open>
  The two messages of \<^verbatim>\<open>get_compile_options\<close>, written out: the array as NumPy prints
  it, and the expected count.
\<close>

definition replicas_message :: "options_env \<Rightarrow> ndarray \<Rightarrow> int \<Rightarrow> string" where
  "replicas_message env a nr =
     ''device_assignment does not match num_replicas: '' @ array_str env a @ '' vs ''
       @ str_int nr @ ''.''"

definition partitions_message :: "options_env \<Rightarrow> ndarray \<Rightarrow> int \<Rightarrow> string" where
  "partitions_message env a np =
     ''device_assignment does not match num_partitions: '' @ array_str env a @ '' vs ''
       @ str_int np @ ''.''"

text \<open>The array \<^verbatim>\<open>[[0, 1]]\<close> of shape (1, 2) and the array \<^verbatim>\<open>[0, 1]\<close> of shape (2,).\<close>

definition row_0_1 :: ndarray where
  "row_0_1 = \<lparr>shape = [1, 2], elems = IntElems [0, 1]\<rparr>"

definition vector_0_1 :: ndarray where
  "vector_0_1 = \<lparr>shape = [2], elems = IntElems [0, 1]\<rparr>"

section \<open>Properties\<close>

subsection \<open>\<^verbatim>\<open>backend_compile\<close>\<close>

lemma backend_compile_eq:
  "backend_compile b m opts hc w = call_compile b (built_c b m) opts (callbacks_arg hc) w"
  by (simp add: backend_compile_def built_c_def callbacks_arg_def Let_def)

lemma trace_call_compile:
  "trace (snd (call_compile b c opts h w)) = trace w @ [Call_compile c h]"
  by (simp add: call_compile_def emit_def split: sum.splits)

lemma ticks_call_compile: "ticks (snd (call_compile b c opts h w)) = ticks w"
  by (simp add: call_compile_def emit_def split: sum.splits)

lemma fst_call_compile:
  "fst (call_compile b c opts h w) = (case compile b c opts h of Inl ex \<Rightarrow> Inl (Raised ex)
                                       | Inr exe \<Rightarrow> Inr exe)"
  by (simp add: call_compile_def split: sum.splits)

text \<open>
  C9. A backend without a \<^verbatim>\<open>needs_str_ir\<close> attribute is treated as one whose attribute
  is true: the native entry point receives the bytecode of the module. It receives the
  module object exactly when the attribute is present and false.
\<close>

theorem backend_compile_needs_str_ir:
  "(needs_str_ir b = None \<longrightarrow>
      backend_compile b m opts hc w = backend_compile (b\<lparr>needs_str_ir := Some True\<rparr>) m opts hc w
      \<and> new_events w (snd (backend_compile b m opts hc w))
          = [Call_compile (Bytecode (module_to_bytecode m)) (if hc = [] then None else Some hc)])
   \<and> ((\<exists>h. new_events w (snd (backend_compile b m opts hc w)) = [Call_compile (ModuleObject m) h])
        \<longleftrightarrow> needs_str_ir b = Some False)"
  by (cases "needs_str_ir b")
     (auto simp: backend_compile_def getattr_needs_str_ir_def call_compile_def emit_def Let_def
           new_events_def split: sum.splits)

theorem backend_compile_needs_str_ir_witness:
  "needs_str_ir (example_backend ''tpu'' None) = None
   \<and> new_events world0
        (snd (backend_compile (example_backend ''tpu'' None) example_module example_options []
               world0))
       = [Call_compile (Bytecode ''ML0'') None]"
  using backend_compile_needs_str_ir
          [of "example_backend ''tpu'' None" example_module example_options "[]" world0]
  by (simp add: example_backend_def example_module_def world0_def new_events_def
        backend_compile_def getattr_needs_str_ir_def call_compile_def emit_def)

subsection \<open>\<^verbatim>\<open>get_compile_options\<close>\<close>

lemma get_compile_options_fails_iff:
  "isl (fst (get_compile_options env nr np da us ua ms mi eo fdo)) \<longleftrightarrow>
     (\<exists>a. da = Some a \<and> isl (convert_device_assignment env nr np a))"
  by (simp add: get_compile_options_def Let_def split_beta split: option.splits sum.splits)

text \<open>
  C5. The profile version of the returned options is the configured version when that is
  positive, otherwise the provider's value when that is not zero, otherwise -1; the
  error record is logged exactly in the last case, and resolving the version never makes
  the call fail: without a device assignment the call returns options.
\<close>

theorem profile_version_precedence:
  "(\<forall>co. fst (get_compile_options env nr np da us ua ms mi eo fdo) = Inr co \<longrightarrow>
       profile_version co =
         (if jax_xla_profile_version env > 0 then jax_xla_profile_version env
          else if get_latest_profile_version env \<noteq> 0 then get_latest_profile_version env
          else - 1)
       \<and> (Error_profile_version_is_zero \<in> set (snd (get_compile_options env nr np da us ua ms mi eo fdo))
            \<longleftrightarrow> \<not> jax_xla_profile_version env > 0 \<and> get_latest_profile_version env = 0))
   \<and> (da = None \<longrightarrow> (\<exists>co. fst (get_compile_options env nr np da us ua ms mi eo fdo) = Inr co))"
  by (auto simp: get_compile_options_def resolve_profile_version_def Let_def split_beta
           split: option.splits sum.splits)

theorem profile_version_precedence_witness:
  "profile_version (projr (fst (get_compile_options (example_env 7 3) 1 1 None True False None None None None))) = 7
   \<and> profile_version (projr (fst (get_compile_options (example_env 0 3) 1 1 None True False None None None None))) = 3
   \<and> profile_version (projr (fst (get_compile_options (example_env 0 0) 1 1 None True False None None None None))) = - 1
   \<and> Error_profile_version_is_zero
        \<in> set (snd (get_compile_options (example_env 0 0) 1 1 None True False None None None None))"
  using profile_version_precedence [of "example_env 7 3" 1 1 None True False None None None None]
        profile_version_precedence [of "example_env 0 3" 1 1 None True False None None None None]
        profile_version_precedence [of "example_env 0 0" 1 1 None True False None None None None]
  by (auto simp: example_env_def)

subsection \<open>File name sanitisation\<close>

lemma in_class_ascii:
  "in_class isalnum c = (in_ascii_class c \<or> (128 \<le> c \<and> isalnum c))"
  by (auto simp: in_class_def word_char_def ascii_alnum_def in_ascii_class_def)

text \<open>
  C7, as amended. The sanitisation keeps exactly the characters of
  \<^verbatim>\<open>[A-Za-z0-9_.() -]\<close> and the non-ASCII characters that \<^verbatim>\<open>\w\<close> matches, and removes
  all others; on a name of ASCII characters it removes exactly those outside
  \<^verbatim>\<open>[A-Za-z0-9_.() -]\<close>.
\<close>

theorem make_string_safe_for_filename_keeps:
  "make_string_safe_for_filename isalnum s
     = filter (\<lambda>c. in_ascii_class c \<or> (128 \<le> c \<and> isalnum c)) s
   \<and> ((\<forall>c \<in> set s. c < 128) \<longrightarrow>
        make_string_safe_for_filename isalnum s = filter in_ascii_class s)"
proof -
  have a: "make_string_safe_for_filename isalnum s
             = filter (\<lambda>c. in_ascii_class c \<or> (128 \<le> c \<and> isalnum c)) s"
    unfolding make_string_safe_for_filename_def
    by (rule filter_cong) (simp_all add: in_class_ascii)
  have b: "make_string_safe_for_filename isalnum s = filter in_ascii_class s"
    if "\<forall>c \<in> set s. c < 128"
    unfolding make_string_safe_for_filename_def
    by (rule filter_cong) (use that in \<open>auto simp: in_class_ascii\<close>)
  from a b show ?thesis by blast
qed

theorem make_string_safe_for_filename_keeps_witness:
  "make_string_safe_for_filename latin1_letter (codepoints ''a/b c:d_(1).x-y'')
     = codepoints ''ab cd_(1).x-y''"
  using make_string_safe_for_filename_keeps [of latin1_letter "codepoints ''a/b c:d_(1).x-y''"]
  by (simp add: codepoints_def in_ascii_class_def)

text \<open>
  C7 as stated fails on the module name \<^verbatim>\<open>jit_\<close> followed by U+00E9 (e with acute
  accent): the name keeps its last character, which is outside \<^verbatim>\<open>[A-Za-z0-9_.() -]\<close>.
\<close>

theorem make_string_safe_for_filename_counterexample:
  "make_string_safe_for_filename latin1_letter [106, 105, 116, 95, 233] = [106, 105, 116, 95, 233]
   \<and> filter in_ascii_class [106, 105, 116, 95, 233] = [106, 105, 116, 95]"
  by (simp add: make_string_safe_for_filename_def in_class_def word_char_def ascii_alnum_def
      latin1_letter_def in_ascii_class_def)

subsection \<open>\<^verbatim>\<open>_cache_write\<close>\<close>

lemma trace_cache_write:
  "trace (snd (cache_write cfg k ct n b exe hc w)) = trace w @ write_events cfg k ct n b exe hc"
  by (simp add: cache_write_def write_events_def emit_def Let_def split: option.splits)

lemma ticks_cache_write: "ticks (snd (cache_write cfg k ct n b exe hc w)) = ticks w"
  by (simp add: cache_write_def emit_def Let_def split: option.splits)

lemma new_events_append: "trace w' = trace w @ es \<Longrightarrow> new_events w w' = es"
  by (simp add: new_events_def)

lemma put_in_write_events:
  "Call_put_executable_and_time k' n' x s \<in> set (write_events cfg k ct n b exe hc)
     \<longleftrightarrow> admitted cfg ct hc \<and> k' = k \<and> n' = n \<and> x = exe \<and> s = py_int ct"
  by (auto simp: write_events_def admitted_def split: option.splits)

lemma py_int_truncates:
  "(0 \<le> x \<longrightarrow> of_int (py_int x) \<le> x \<and> x < of_int (py_int x) + 1)
   \<and> (x < 0 \<longrightarrow> x \<le> of_int (py_int x) \<and> of_int (py_int x) - 1 < x)"
  unfolding py_int_def by (auto; linarith)

text \<open>
  C8. Every call of \<^verbatim>\<open>put_executable_and_time\<close> made by \<^verbatim>\<open>_cache_write\<close> passes the
  compile time truncated towards zero: an integer between zero and the measured time,
  less than one second away from it.
\<close>

theorem put_gets_truncated_compile_time:
  "\<forall>k' n' x s.
     Call_put_executable_and_time k' n' x s
       \<in> set (new_events w (snd (cache_write cfg k ct n b exe hc w)))
     \<longrightarrow> s = py_int ct
         \<and> (0 \<le> ct \<longrightarrow> of_int s \<le> ct \<and> ct < of_int s + 1)
         \<and> (ct < 0 \<longrightarrow> ct \<le> of_int s \<and> of_int s - 1 < ct)"
  using py_int_truncates [of ct]
  by (simp add: new_events_append [OF trace_cache_write] put_in_write_events)

theorem put_gets_truncated_compile_time_witness:
  "Call_put_executable_and_time ''K'' (codepoints ''jit_f'') (LoadedExecutable ''fresh'') 5
     \<in> set (new_events world0
              (snd (cache_write (example_config True None False 0 example_clock (Inr (None, None)) None)
                     ''K'' (23 / 4) (codepoints ''jit_f'') (example_backend ''tpu'' None)
                     (LoadedExecutable ''fresh'') [] world0)))
   \<and> py_int (23 / 4) = 5"
  using put_gets_truncated_compile_time
          [of world0 "example_config True None False 0 example_clock (Inr (None, None)) None"
              "''K''" "23 / 4" "codepoints ''jit_f''" "example_backend ''tpu'' None"
              "LoadedExecutable ''fresh''" "[]"]
  by (simp add: new_events_def world0_def cache_write_def example_config_def emit_def py_int_def)

subsection \<open>The parts of \<^verbatim>\<open>compile_or_get_cached\<close>\<close>

lemma use_compilation_cache_eligible: "use_compilation_cache cfg b = cache_eligible cfg b"
  by (auto simp: use_compilation_cache_def cache_eligible_def supported_platforms_def)

lemma fst_cache_write:
  "fst (cache_write cfg k ct n b exe hc w) =
     (if admitted cfg ct hc \<and> jax_raise_persistent_cache_errors cfg
      then (case put_executable_and_time cfg k n exe b (py_int ct) of
              None \<Rightarrow> Inr () | Some ex \<Rightarrow> Inl (Raised ex))
      else Inr ())"
  by (auto simp: cache_write_def admitted_def Let_def split: option.splits)

lemma trace_cache_read:
  "trace (snd (cache_read cfg n k opts b w)) = trace w @ lookup_events cfg n k opts b"
  by (simp add: cache_read_def lookup_events_def emit_def Let_def split: sum.splits)

lemma ticks_cache_read: "ticks (snd (cache_read cfg n k opts b w)) = ticks w"
  by (simp add: cache_read_def emit_def Let_def split: sum.splits)

lemma fst_cache_read:
  "fst (cache_read cfg n k opts b w) =
     (case get_executable_and_time cfg k opts b of
        Inl ex \<Rightarrow> if jax_raise_persistent_cache_errors cfg then Inl (Raised ex)
                  else Inr (None, None)
      | Inr r \<Rightarrow> Inr r)"
  by (simp add: cache_read_def Let_def split: sum.splits)

lemma trace_cache_hit:
  "trace (snd (cache_hit n exe rt lat w)) = trace w @ hit_events n rt lat"
  by (simp add: cache_hit_def hit_events_def emit_def Let_def split: option.splits)

lemma fst_cache_hit:
  "fst (cache_hit n exe rt lat w) = (case rt of None \<Rightarrow> Inl AssertionError | Some secs \<Rightarrow> Inr exe)"
  by (simp add: cache_hit_def Let_def split: option.splits)

lemma trace_cache_miss:
  "trace (snd (cache_miss cfg b m opts hc n k w)) =
     trace w @ miss_events cfg b m opts hc n k
                 (float_sub cfg (monotonic cfg (Suc (ticks w))) (monotonic cfg (ticks w)))"
  by (simp add: cache_miss_def miss_events_def time_monotonic_def Let_def split_beta
      backend_compile_eq trace_call_compile ticks_call_compile fst_call_compile
      trace_cache_write split: sum.splits)

lemma fst_cache_miss:
  "fst (cache_miss cfg b m opts hc n k w) =
     miss_result cfg b m opts hc n k
       (float_sub cfg (monotonic cfg (Suc (ticks w))) (monotonic cfg (ticks w)))"
  by (simp add: cache_miss_def miss_result_def time_monotonic_def Let_def split_beta
      backend_compile_eq ticks_call_compile fst_call_compile fst_cache_write
      split: sum.splits option.splits)

lemma trace_after_dump:
  "trace (after_dump ia cfg m w) = trace w @ dump_events ia cfg m w"
  by (simp add: dump_events_def new_events_def after_dump_def dump_ir_to_file_def emit_def Let_def)

lemma ticks_after_dump: "ticks (after_dump ia cfg m w) = ticks w"
  by (simp add: after_dump_def dump_ir_to_file_def emit_def Let_def)

lemma dump_events_cases:
  "dump_events ia cfg m w = [] \<or> (\<exists>f. dump_events ia cfg m w = [Write_text (DUMP_IR_TO cfg) f (module_to_string m)])"
  by (simp add: dump_events_def new_events_def after_dump_def dump_ir_to_file_def emit_def Let_def)

lemma compile_or_get_cached_ineligible:
  "\<not> cache_eligible cfg b \<Longrightarrow>
     compile_or_get_cached ia cfg b m devices opts hc w =
       backend_compile b m opts hc (after_dump ia cfg m w)"
  by (simp add: compile_or_get_cached_def use_compilation_cache_eligible Let_def)

lemma compile_or_get_cached_eligible:
  assumes "cache_eligible cfg b"
  shows "compile_or_get_cached ia cfg b m devices opts hc w =
     (let w1 = emit (Call_get_cache_key (sym_name m)
                       (jax_use_original_compilation_cache_key_generation cfg))
                 (after_dump ia cfg m w);
          k = request_key cfg m devices opts b;
          rd = cache_read cfg (sym_name m) k opts b (w1\<lparr>ticks := Suc (ticks w1)\<rparr>)
      in (case fst rd of
            Inl ex \<Rightarrow> (Inl ex, snd rd)
          | Inr (x, rt) \<Rightarrow>
              (case x of
                 Some exe \<Rightarrow> cache_hit (sym_name m) exe rt (lookup_latency cfg w)
                               ((snd rd)\<lparr>ticks := Suc (ticks (snd rd))\<rparr>)
               | None \<Rightarrow> cache_miss cfg b m opts hc (sym_name m) k
                               ((snd rd)\<lparr>ticks := Suc (ticks (snd rd))\<rparr>))))"
  using assms
  by (simp add: compile_or_get_cached_def use_compilation_cache_eligible
      request_key_def lookup_latency_def time_monotonic_def Let_def split_beta emit_def
      ticks_after_dump ticks_cache_read split: sum.splits option.splits prod.splits)

lemma trace_compile_or_get_cached:
  assumes "cache_eligible cfg b"
  shows "trace (snd (compile_or_get_cached ia cfg b m devices opts hc w)) =
     trace w @ dump_events ia cfg m w
       @ Call_get_cache_key (sym_name m) (jax_use_original_compilation_cache_key_generation cfg)
       # lookup_events cfg (sym_name m) (request_key cfg m devices opts b) opts b
       @ (case get_executable_and_time cfg (request_key cfg m devices opts b) opts b of
            Inl ex \<Rightarrow> if jax_raise_persistent_cache_errors cfg then []
                      else miss_events cfg b m opts hc (sym_name m)
                             (request_key cfg m devices opts b) (measured_compile_time cfg w)
          | Inr (Some exe, rt) \<Rightarrow> hit_events (sym_name m) rt (lookup_latency cfg w)
          | Inr (None, rt) \<Rightarrow> miss_events cfg b m opts hc (sym_name m)
                             (request_key cfg m devices opts b) (measured_compile_time cfg w))"
  unfolding compile_or_get_cached_eligible [OF assms]
  by (simp add: Let_def fst_cache_read trace_cache_read ticks_cache_read trace_cache_hit
      trace_cache_miss trace_after_dump ticks_after_dump emit_def measured_compile_time_def
      split: sum.splits option.splits)

lemma fst_compile_or_get_cached:
  assumes "cache_eligible cfg b"
  shows "fst (compile_or_get_cached ia cfg b m devices opts hc w) =
     (case get_executable_and_time cfg (request_key cfg m devices opts b) opts b of
        Inl ex \<Rightarrow> if jax_raise_persistent_cache_errors cfg then Inl (Raised ex)
                  else miss_result cfg b m opts hc (sym_name m)
                         (request_key cfg m devices opts b) (measured_compile_time cfg w)
      | Inr (Some exe, rt) \<Rightarrow> (case rt of None \<Rightarrow> Inl AssertionError | Some secs \<Rightarrow> Inr exe)
      | Inr (None, rt) \<Rightarrow> miss_result cfg b m opts hc (sym_name m)
                         (request_key cfg m devices opts b) (measured_compile_time cfg w))"
  unfolding compile_or_get_cached_eligible [OF assms]
  by (simp add: Let_def fst_cache_read ticks_cache_read fst_cache_hit
      fst_cache_miss ticks_after_dump emit_def measured_compile_time_def
      split: sum.splits option.splits)

subsection \<open>\<^verbatim>\<open>compile_or_get_cached\<close>\<close>

lemma no_cache_event_in_dump: "e \<in> set (dump_events ia cfg m w) \<Longrightarrow> \<not> is_cache_event e"
  using dump_events_cases [of ia cfg m w] by (auto simp: is_cache_event_def)

lemma no_compile_event_in_dump: "e \<in> set (dump_events ia cfg m w) \<Longrightarrow> \<not> is_compile_event e"
  using dump_events_cases [of ia cfg m w] by (auto simp: is_compile_event_def)

lemma no_put_event_in_dump: "e \<in> set (dump_events ia cfg m w) \<Longrightarrow> \<not> is_put_event e"
  using dump_events_cases [of ia cfg m w] by (auto simp: is_put_event_def)


lemma new_events_ineligible:
  "\<not> cache_eligible cfg b \<Longrightarrow>
     new_events w (snd (compile_or_get_cached ia cfg b m devices opts hc w)) =
       dump_events ia cfg m w @ [Call_compile (built_c b m) (callbacks_arg hc)]"
  by (rule new_events_append)
     (simp add: compile_or_get_cached_ineligible backend_compile_eq trace_call_compile
        trace_after_dump)

lemmas new_events_eligible = new_events_append [OF trace_compile_or_get_cached]

text \<open>
  C1. A request touches the persistent cache (derives a key, looks up or writes) exactly
  when the cache is initialised and the platform is tpu or gpu, or cpu with
  \<^verbatim>\<open>--xla_cpu_use_xla_runtime=true\<close> in \<^verbatim>\<open>XLA_FLAGS\<close>. Otherwise the request is
  \<^verbatim>\<open>backend_compile\<close> and nothing else.
\<close>

theorem cache_consulted_iff_eligible:
  "((\<exists>e \<in> set (new_events w (snd (compile_or_get_cached ia cfg b m devices opts hc w))).
       is_cache_event e) \<longleftrightarrow> cache_eligible cfg b)
   \<and> (\<not> cache_eligible cfg b \<longrightarrow>
        compile_or_get_cached ia cfg b m devices opts hc w =
          backend_compile b m opts hc (after_dump ia cfg m w))"
proof (cases "cache_eligible cfg b")
  case False
  have "\<not> is_cache_event e"
    if "e \<in> set (new_events w (snd (compile_or_get_cached ia cfg b m devices opts hc w)))" for e
    using that False no_cache_event_in_dump [of e ia cfg m w]
    by (auto simp: new_events_ineligible is_cache_event_def)
  with False show ?thesis
    by (auto simp: compile_or_get_cached_ineligible)
next
  case True
  have "Call_get_cache_key (sym_name m) (jax_use_original_compilation_cache_key_generation cfg)
          \<in> set (new_events w (snd (compile_or_get_cached ia cfg b m devices opts hc w)))"
    by (simp add: new_events_eligible [OF True])
  moreover have "is_cache_event (Call_get_cache_key (sym_name m)
                    (jax_use_original_compilation_cache_key_generation cfg))"
    by (simp add: is_cache_event_def)
  ultimately show ?thesis using True by blast
qed

lemma py_int_example: "py_int (23 / 4) = 5"
proof -
  have "\<lfloor>23 / 4 :: rat\<rfloor> = 5" by linarith
  then show ?thesis by (simp add: py_int_def)
qed

lemma py_int_one: "py_int 1 = 1"
  by (simp add: py_int_def)

lemmas run_defs =
  compile_or_get_cached_def after_dump_def use_compilation_cache_def supported_platforms_def
  cache_eligible_def cache_read_def cache_write_def cache_hit_def cache_miss_def
  backend_compile_def call_compile_def getattr_needs_str_ir_def time_monotonic_def emit_def
  new_events_def example_config_def example_backend_def example_module_def world0_def
  example_clock_def fifths_clock_def example_float_sub_def py_int_example py_int_one Let_def

theorem cache_consulted_iff_eligible_witness:
  "\<not> cache_eligible (example_config True None False 0 example_clock (Inr (None, None)) None)
        (example_backend ''cpu'' None)
   \<and> new_events world0
        (snd (compile_or_get_cached latin1_letter
               (example_config True None False 0 example_clock (Inr (None, None)) None)
               (example_backend ''cpu'' None) example_module example_devices example_options []
               world0))
       = [Call_compile (Bytecode ''ML0'') None]
   \<and> cache_eligible
        (example_config True (Some ''--xla_gpu_foo --xla_cpu_use_xla_runtime=true'') False 0
           example_clock (Inr (None, None)) None)
        (example_backend ''cpu'' None)
   \<and> new_events world0
        (snd (compile_or_get_cached latin1_letter
               (example_config True (Some ''--xla_gpu_foo --xla_cpu_use_xla_runtime=true'') False 0
                  example_clock (Inr (None, None)) None)
               (example_backend ''cpu'' None) example_module example_devices example_options []
               world0))
       = [Call_get_cache_key (codepoints ''jit_f'') False, Call_get_executable_and_time ''K'',
          Call_compile (Bytecode ''ML0'') None,
          Call_put_executable_and_time ''K'' (codepoints ''jit_f'') (LoadedExecutable ''fresh'') 5]"
  using cache_consulted_iff_eligible
          [of world0 latin1_letter
              "example_config True None False 0 example_clock (Inr (None, None)) None"
              "example_backend ''cpu'' None" example_module example_devices example_options "[]"]
        cache_consulted_iff_eligible
          [of world0 latin1_letter
              "example_config True (Some ''--xla_gpu_foo --xla_cpu_use_xla_runtime=true'') False 0
                 example_clock (Inr (None, None)) None"
              "example_backend ''cpu'' None" example_module example_devices example_options "[]"]
  by (simp add: run_defs)

lemma with_empty_cache_fields:
  "jax_raise_persistent_cache_errors (with_empty_cache cfg) = jax_raise_persistent_cache_errors cfg"
  "put_executable_and_time (with_empty_cache cfg) = put_executable_and_time cfg"
  "jax_persistent_cache_min_compile_time_secs (with_empty_cache cfg)
     = jax_persistent_cache_min_compile_time_secs cfg"
  "jax_use_original_compilation_cache_key_generation (with_empty_cache cfg)
     = jax_use_original_compilation_cache_key_generation cfg"
  "get_executable_and_time (with_empty_cache cfg) k opts b = Inr (None, None)"
  by (simp_all add: with_empty_cache_def)

lemma with_empty_cache_write:
  "write_events (with_empty_cache cfg) k ct n b exe hc = write_events cfg k ct n b exe hc"
  "admitted (with_empty_cache cfg) ct hc = admitted cfg ct hc"
  by (simp_all add: write_events_def admitted_def with_empty_cache_fields split: option.splits)

lemma with_empty_cache_miss:
  "miss_events (with_empty_cache cfg) b m opts hc n k ct = miss_events cfg b m opts hc n k ct"
  "miss_result (with_empty_cache cfg) b m opts hc n k ct = miss_result cfg b m opts hc n k ct"
  by (simp_all add: miss_events_def miss_result_def with_empty_cache_write
        with_empty_cache_fields cong: sum.case_cong if_cong)

lemma with_empty_cache_simps:
  "cache_eligible (with_empty_cache cfg) b = cache_eligible cfg b"
  "request_key (with_empty_cache cfg) m devices opts b = request_key cfg m devices opts b"
  "measured_compile_time (with_empty_cache cfg) w = measured_compile_time cfg w"
  "dump_events ia (with_empty_cache cfg) m w = dump_events ia cfg m w"
  by (simp_all add: with_empty_cache_def cache_eligible_def request_key_def
        measured_compile_time_def dump_events_def after_dump_def dump_ir_to_file_def)

lemma no_warning_in_dump: "Warn_error_reading n ex \<notin> set (dump_events ia cfg m w)"
  using dump_events_cases [of ia cfg m w] by auto

lemma no_compile_event_in_lookup:
  "e \<in> set (lookup_events cfg n k opts b) \<Longrightarrow> \<not> is_compile_event e"
  by (auto simp: lookup_events_def is_compile_event_def split: sum.splits if_splits)

text \<open>
  C2. When the lookup raises: with the raise-errors flag set, \<^verbatim>\<open>_cache_read\<close> raises the
  same exception, and so does the request, without calling the compiler; with the flag
  unset, \<^verbatim>\<open>_cache_read\<close> logs a warning and returns (None, None), and the request returns
  what it returns on an empty cache, with the same effects apart from the warning.
\<close>

theorem cache_read_error_policy:
  assumes "get_executable_and_time cfg k opts b = Inl ex"
  shows "(jax_raise_persistent_cache_errors cfg \<longrightarrow>
            cache_read cfg n k opts b w
              = (Inl (Raised ex), emit (Call_get_executable_and_time k) w)
            \<and> (cache_eligible cfg b \<and> k = request_key cfg m devices opts b \<longrightarrow>
                 fst (compile_or_get_cached ia cfg b m devices opts hc w) = Inl (Raised ex)
                 \<and> \<not> (\<exists>e \<in> set (new_events w
                                    (snd (compile_or_get_cached ia cfg b m devices opts hc w))).
                         is_compile_event e)))
       \<and> (\<not> jax_raise_persistent_cache_errors cfg \<longrightarrow>
            cache_read cfg n k opts b w
              = (Inr (None, None),
                 emit (Warn_error_reading n ex) (emit (Call_get_executable_and_time k) w))
            \<and> (cache_eligible cfg b \<and> k = request_key cfg m devices opts b \<longrightarrow>
                 fst (compile_or_get_cached ia cfg b m devices opts hc w)
                   = fst (compile_or_get_cached ia (with_empty_cache cfg) b m devices opts hc w)
                 \<and> remove1 (Warn_error_reading (sym_name m) ex)
                      (new_events w (snd (compile_or_get_cached ia cfg b m devices opts hc w)))
                   = new_events w
                       (snd (compile_or_get_cached ia (with_empty_cache cfg) b m devices opts hc w))))"
proof -
  have rd_strict: "cache_read cfg n k opts b w
                     = (Inl (Raised ex), emit (Call_get_executable_and_time k) w)"
    if "jax_raise_persistent_cache_errors cfg"
    using assms that by (simp add: cache_read_def Let_def)
  have rd_lax: "cache_read cfg n k opts b w
                  = (Inr (None, None),
                     emit (Warn_error_reading n ex) (emit (Call_get_executable_and_time k) w))"
    if "\<not> jax_raise_persistent_cache_errors cfg"
    using assms that by (simp add: cache_read_def Let_def)
  have strict: "fst (compile_or_get_cached ia cfg b m devices opts hc w) = Inl (Raised ex)
                \<and> \<not> (\<exists>e \<in> set (new_events w
                                   (snd (compile_or_get_cached ia cfg b m devices opts hc w))).
                        is_compile_event e)"
    if "jax_raise_persistent_cache_errors cfg" and el: "cache_eligible cfg b"
      and k: "k = request_key cfg m devices opts b"
    using assms that no_compile_event_in_dump [of _ ia cfg m w]
    by (auto simp: fst_compile_or_get_cached [OF el] new_events_eligible [OF el]
        lookup_events_def is_compile_event_def)
  have lax: "fst (compile_or_get_cached ia cfg b m devices opts hc w)
               = fst (compile_or_get_cached ia (with_empty_cache cfg) b m devices opts hc w)
             \<and> remove1 (Warn_error_reading (sym_name m) ex)
                  (new_events w (snd (compile_or_get_cached ia cfg b m devices opts hc w)))
               = new_events w
                   (snd (compile_or_get_cached ia (with_empty_cache cfg) b m devices opts hc w))"
    if lx: "\<not> jax_raise_persistent_cache_errors cfg" and el: "cache_eligible cfg b"
      and k: "k = request_key cfg m devices opts b"
  proof -
    have el': "cache_eligible (with_empty_cache cfg) b"
      using el by (simp add: with_empty_cache_simps)
    show ?thesis
      using assms lx k no_warning_in_dump [of "sym_name m" ex ia cfg m w]
      by (simp add: fst_compile_or_get_cached [OF el] fst_compile_or_get_cached [OF el']
          new_events_eligible [OF el] new_events_eligible [OF el'] with_empty_cache_simps
          with_empty_cache_miss
          with_empty_cache_fields lookup_events_def remove1_append)
  qed
  from rd_strict rd_lax strict lax show ?thesis by blast
qed

theorem cache_read_error_policy_witness:
  "get_executable_and_time
     (example_config True None True 0 example_clock (Inl ''OSError'') None)
     ''K'' example_options (example_backend ''tpu'' None) = Inl ''OSError''
   \<and> compile_or_get_cached latin1_letter
       (example_config True None True 0 example_clock (Inl ''OSError'') None)
       (example_backend ''tpu'' None) example_module example_devices example_options [] world0
     = (Inl (Raised ''OSError''),
        \<lparr>trace = [Call_get_cache_key (codepoints ''jit_f'') False,
                  Call_get_executable_and_time ''K''],
         ticks = 1, ir_dump_counter = 0\<rparr>)
   \<and> get_executable_and_time
       (example_config True None False 0 example_clock (Inl ''OSError'') None)
       ''K'' example_options (example_backend ''tpu'' None) = Inl ''OSError''
   \<and> compile_or_get_cached latin1_letter
       (example_config True None False 0 example_clock (Inl ''OSError'') None)
       (example_backend ''tpu'' None) example_module example_devices example_options [] world0
     = (Inr (LoadedExecutable ''fresh''),
        \<lparr>trace = [Call_get_cache_key (codepoints ''jit_f'') False,
                  Call_get_executable_and_time ''K'',
                  Warn_error_reading (codepoints ''jit_f'') ''OSError'',
                  Call_compile (Bytecode ''ML0'') None,
                  Call_put_executable_and_time ''K'' (codepoints ''jit_f'')
                    (LoadedExecutable ''fresh'') 5],
         ticks = 4, ir_dump_counter = 0\<rparr>)"
  using cache_read_error_policy
          [of "example_config True None True 0 example_clock (Inl ''OSError'') None"
              "''K''" example_options "example_backend ''tpu'' None" "''OSError''"
              "codepoints ''jit_f''" world0 example_module example_devices latin1_letter "[]"]
        cache_read_error_policy
          [of "example_config True None False 0 example_clock (Inl ''OSError'') None"
              "''K''" example_options "example_backend ''tpu'' None" "''OSError''"
              "codepoints ''jit_f''" world0 example_module example_devices latin1_letter "[]"]
  by (simp add: run_defs)

lemma fst_backend_compile:
  "fst (backend_compile b m opts hc w) =
     (case compile b (built_c b m) opts (callbacks_arg hc) of
        Inl ex \<Rightarrow> Inl (Raised ex) | Inr exe \<Rightarrow> Inr exe)"
  by (simp add: backend_compile_eq fst_call_compile)

lemma put_event_in_write_events:
  "(\<exists>e \<in> set (write_events cfg k ct n b exe hc). is_put_event e) \<longleftrightarrow> admitted cfg ct hc"
  by (auto simp: write_events_def admitted_def is_put_event_def split: option.splits)

lemma no_put_event_in_lookup:
  "e \<in> set (lookup_events cfg n k opts b) \<Longrightarrow> \<not> is_put_event e"
  by (auto simp: lookup_events_def is_put_event_def split: sum.splits if_splits)

text \<open>
  C3. On an eligible request whose lookup returns no executable and whose compilation
  succeeds, \<^verbatim>\<open>put_executable_and_time\<close> is called exactly when there are no host
  callbacks and the threshold is zero or not above the measured compile time. When that
  does not hold, the request still returns the compiled executable.
\<close>

theorem put_iff_admitted:
  assumes "cache_eligible cfg b"
    and "fst (cache_read cfg (sym_name m) (request_key cfg m devices opts b) opts b w)
           = Inr (None, rt)"
    and "fst (backend_compile b m opts hc w) = Inr exe"
  shows "((\<exists>e \<in> set (new_events w (snd (compile_or_get_cached ia cfg b m devices opts hc w))).
            is_put_event e)
          \<longleftrightarrow> hc = [] \<and> (jax_persistent_cache_min_compile_time_secs cfg = 0
                         \<or> jax_persistent_cache_min_compile_time_secs cfg
                             \<le> measured_compile_time cfg w))
         \<and> (\<not> (hc = [] \<and> (jax_persistent_cache_min_compile_time_secs cfg = 0
                           \<or> jax_persistent_cache_min_compile_time_secs cfg
                               \<le> measured_compile_time cfg w))
             \<longrightarrow> fst (compile_or_get_cached ia cfg b m devices opts hc w) = Inr exe)"
proof -
  let ?k = "request_key cfg m devices opts b"
  let ?ct = "measured_compile_time cfg w"
  from assms(3) have c: "compile b (built_c b m) opts (callbacks_arg hc) = Inr exe"
    by (simp add: fst_backend_compile split: sum.splits)
  have ev: "new_events w (snd (compile_or_get_cached ia cfg b m devices opts hc w)) =
        dump_events ia cfg m w
          @ Call_get_cache_key (sym_name m) (jax_use_original_compilation_cache_key_generation cfg)
          # lookup_events cfg (sym_name m) ?k opts b
          @ Call_compile (built_c b m) (callbacks_arg hc)
          # write_events cfg ?k ?ct (sym_name m) b exe hc"
    using assms(2) c
    by (simp add: new_events_eligible [OF assms(1)] fst_cache_read miss_events_def
        split: sum.splits if_splits)
  have res: "fst (compile_or_get_cached ia cfg b m devices opts hc w)
               = miss_result cfg b m opts hc (sym_name m) ?k ?ct"
    using assms(2)
    by (simp add: fst_compile_or_get_cached [OF assms(1)] fst_cache_read
        split: sum.splits if_splits)
  have "(\<exists>e \<in> set (new_events w (snd (compile_or_get_cached ia cfg b m devices opts hc w))).
            is_put_event e) \<longleftrightarrow> admitted cfg ?ct hc"
    unfolding ev
    using no_put_event_in_dump [of _ ia cfg m w]
      no_put_event_in_lookup [of _ cfg "sym_name m" ?k opts b]
      put_event_in_write_events [of cfg ?k ?ct "sym_name m" b exe hc]
    by (auto simp: is_put_event_def)
  moreover have "fst (compile_or_get_cached ia cfg b m devices opts hc w) = Inr exe"
    if "\<not> admitted cfg ?ct hc"
    using that c by (simp add: res miss_result_def)
  ultimately show ?thesis
    by (simp add: admitted_def)
qed

theorem put_iff_admitted_witness:
  "new_events world0
     (snd (compile_or_get_cached latin1_letter
            (example_config True None False 0 example_clock (Inr (None, None)) None)
            (example_backend ''gpu'' None) example_module example_devices example_options []
            world0))
     = [Call_get_cache_key (codepoints ''jit_f'') False, Call_get_executable_and_time ''K'',
        Call_compile (Bytecode ''ML0'') None,
        Call_put_executable_and_time ''K'' (codepoints ''jit_f'') (LoadedExecutable ''fresh'') 5]
   \<and> compile_or_get_cached latin1_letter
       (example_config True None False 0 example_clock (Inr (None, None)) None)
       (example_backend ''gpu'' None) example_module example_devices example_options
       [''breakpoint''] world0
     = (Inr (LoadedExecutable ''fresh''),
        \<lparr>trace = [Call_get_cache_key (codepoints ''jit_f'') False,
                  Call_get_executable_and_time ''K'',
                  Call_compile (Bytecode ''ML0'') (Some [''breakpoint'']),
                  Info_not_writing_host_callbacks (codepoints ''jit_f'')],
         ticks = 4, ir_dump_counter = 0\<rparr>)
   \<and> compile_or_get_cached latin1_letter
       (example_config True None False 6 example_clock (Inr (None, None)) None)
       (example_backend ''gpu'' None) example_module example_devices example_options [] world0
     = (Inr (LoadedExecutable ''fresh''),
        \<lparr>trace = [Call_get_cache_key (codepoints ''jit_f'') False,
                  Call_get_executable_and_time ''K'',
                  Call_compile (Bytecode ''ML0'') None,
                  Info_not_writing_too_fast (codepoints ''jit_f'') 6 (23 / 4)],
         ticks = 4, ir_dump_counter = 0\<rparr>)
   \<and> measured_compile_time
       (example_config True None False 1 fifths_clock (Inr (None, None)) None) world0 = 1
   \<and> compile_or_get_cached latin1_letter
       (example_config True None False 1 fifths_clock (Inr (None, None)) None)
       (example_backend ''gpu'' None) example_module example_devices example_options [] world0
     = (Inr (LoadedExecutable ''fresh''),
        \<lparr>trace = [Call_get_cache_key (codepoints ''jit_f'') False,
                  Call_get_executable_and_time ''K'',
                  Call_compile (Bytecode ''ML0'') None,
                  Info_writing_took_at_least (codepoints ''jit_f'') 1 1,
                  Call_put_executable_and_time ''K'' (codepoints ''jit_f'')
                    (LoadedExecutable ''fresh'') 1],
         ticks = 4, ir_dump_counter = 0\<rparr>)"
  using put_iff_admitted
          [of "example_config True None False 0 example_clock (Inr (None, None)) None"
              "example_backend ''gpu'' None" example_module example_devices example_options
              world0 None "[]" "LoadedExecutable ''fresh''" latin1_letter]
        put_iff_admitted
          [of "example_config True None False 0 example_clock (Inr (None, None)) None"
              "example_backend ''gpu'' None" example_module example_devices example_options
              world0 None "[''breakpoint'']" "LoadedExecutable ''fresh''" latin1_letter]
        put_iff_admitted
          [of "example_config True None False 6 example_clock (Inr (None, None)) None"
              "example_backend ''gpu'' None" example_module example_devices example_options
              world0 None "[]" "LoadedExecutable ''fresh''" latin1_letter]
        put_iff_admitted
          [of "example_config True None False 1 fifths_clock (Inr (None, None)) None"
              "example_backend ''gpu'' None" example_module example_devices example_options
              world0 None "[]" "LoadedExecutable ''fresh''" latin1_letter]
  by (simp add: run_defs measured_compile_time_def)

lemma no_metric_event_in_lookup:
  "filter is_metric_event (lookup_events cfg n k opts b) = []"
  by (auto simp: lookup_events_def is_metric_event_def split: sum.splits)




lemma miss_result_not_assertion: "miss_result cfg b m opts hc n k ct \<noteq> Inl AssertionError"
  by (simp add: miss_result_def split: sum.splits option.splits)

text \<open>
  C10. When every lookup result has an executable exactly when it has a compile time,
  the request never raises \<^verbatim>\<open>AssertionError\<close>. When the lookup of an eligible request
  returns an executable without a compile time, the request raises \<^verbatim>\<open>AssertionError\<close>:
  it neither compiles nor records a duration.
\<close>

theorem hit_assertion:
  "((\<forall>x t. get_executable_and_time cfg (request_key cfg m devices opts b) opts b = Inr (x, t)
            \<longrightarrow> (x = None \<longleftrightarrow> t = None))
      \<longrightarrow> fst (compile_or_get_cached ia cfg b m devices opts hc w) \<noteq> Inl AssertionError)
   \<and> (cache_eligible cfg b
       \<and> get_executable_and_time cfg (request_key cfg m devices opts b) opts b
           = Inr (Some exe, None)
      \<longrightarrow> fst (compile_or_get_cached ia cfg b m devices opts hc w) = Inl AssertionError
          \<and> new_events w (snd (compile_or_get_cached ia cfg b m devices opts hc w))
              = dump_events ia cfg m w
                @ [Call_get_cache_key (sym_name m)
                     (jax_use_original_compilation_cache_key_generation cfg),
                   Call_get_executable_and_time (request_key cfg m devices opts b)])"
proof -
  let ?k = "request_key cfg m devices opts b"
  have a: "fst (compile_or_get_cached ia cfg b m devices opts hc w) \<noteq> Inl AssertionError"
    if pre: "\<forall>x t. get_executable_and_time cfg ?k opts b = Inr (x, t) \<longrightarrow> (x = None \<longleftrightarrow> t = None)"
  proof (cases "cache_eligible cfg b")
    case False
    then show ?thesis
      by (simp add: compile_or_get_cached_ineligible fst_backend_compile split: sum.splits)
  next
    case True
    show ?thesis
      using pre miss_result_not_assertion [of cfg b m opts hc "sym_name m" ?k]
      by (auto simp: fst_compile_or_get_cached [OF True] split: sum.splits option.splits)
  qed
  have b: "fst (compile_or_get_cached ia cfg b m devices opts hc w) = Inl AssertionError
          \<and> new_events w (snd (compile_or_get_cached ia cfg b m devices opts hc w))
              = dump_events ia cfg m w
                @ [Call_get_cache_key (sym_name m)
                     (jax_use_original_compilation_cache_key_generation cfg),
                   Call_get_executable_and_time ?k]"
    if el: "cache_eligible cfg b"
      and g: "get_executable_and_time cfg ?k opts b = Inr (Some exe, None)"
    using g
    by (simp add: fst_compile_or_get_cached [OF el] new_events_eligible [OF el]
        lookup_events_def hit_events_def)
  from a b show ?thesis by blast
qed

theorem hit_assertion_witness:
  "fst (compile_or_get_cached latin1_letter
          (example_config True None False 0 example_clock
             (Inr (Some (LoadedExecutable ''cached''), Some 3)) None)
          (example_backend ''tpu'' None) example_module example_devices example_options []
          world0)
     = Inr (LoadedExecutable ''cached'')
   \<and> compile_or_get_cached latin1_letter
       (example_config True None False 0 example_clock
          (Inr (Some (LoadedExecutable ''cached''), None)) None)
       (example_backend ''tpu'' None) example_module example_devices example_options []
       world0
     = (Inl AssertionError,
        \<lparr>trace = [Call_get_cache_key (codepoints ''jit_f'') False,
                  Call_get_executable_and_time ''K''],
         ticks = 2, ir_dump_counter = 0\<rparr>)"
  using hit_assertion
          [of "example_config True None False 0 example_clock
                 (Inr (Some (LoadedExecutable ''cached''), Some 3)) None"
              example_module example_devices example_options "example_backend ''tpu'' None"
              latin1_letter "[]" world0]
        hit_assertion
          [of "example_config True None False 0 example_clock
                 (Inr (Some (LoadedExecutable ''cached''), None)) None"
              example_module example_devices example_options "example_backend ''tpu'' None"
              latin1_letter "[]" world0 "LoadedExecutable ''cached''"]
  by (simp add: run_defs)

subsection \<open>The device assignment\<close>

lemma fst_get_compile_options_error:
  "check_device_assignment env nr np a = Inl e \<Longrightarrow>
     fst (get_compile_options env nr np (Some a) us ua ms mi eo fdo) = Inl e"
  by (simp add: get_compile_options_def convert_device_assignment_def Let_def)

text \<open>
  C6, as amended. A one-dimensional assignment of length \<^verbatim>\<open>num_replicas\<close> with
  \<^verbatim>\<open>num_partitions == 1\<close> passes the checks as a column of shape
  \<^verbatim>\<open>(num_replicas, 1)\<close>, and a two-dimensional one of shape
  \<^verbatim>\<open>(num_replicas, num_partitions)\<close> passes unchanged. A two-dimensional assignment, or a
  one-dimensional one with \<^verbatim>\<open>num_partitions == 1\<close> taken as a column, whose first
  dimension is not \<^verbatim>\<open>num_replicas\<close> raises \<^verbatim>\<open>ValueError\<close> with a message that quotes
  the array and \<^verbatim>\<open>num_replicas\<close>; when only the second dimension differs from
  \<^verbatim>\<open>num_partitions\<close>, the message quotes the array and \<^verbatim>\<open>num_partitions\<close>.
\<close>

theorem device_assignment_shape_check:
  "(shape a = [n] \<and> np = 1 \<and> int n = nr \<longrightarrow>
      check_device_assignment env nr np a = Inr (a\<lparr>shape := [n, 1]\<rparr>))
   \<and> (shape a = [n] \<and> np = 1 \<and> int n \<noteq> nr \<longrightarrow>
      fst (get_compile_options env nr np (Some a) us ua ms mi eo fdo)
        = Inl (ValueError (replicas_message env (a\<lparr>shape := [n, 1]\<rparr>) nr)))
   \<and> (shape a = [r, p] \<and> int r = nr \<and> int p = np \<longrightarrow>
      check_device_assignment env nr np a = Inr a)
   \<and> (shape a = [r, p] \<and> int r \<noteq> nr \<longrightarrow>
      fst (get_compile_options env nr np (Some a) us ua ms mi eo fdo)
        = Inl (ValueError (replicas_message env a nr)))
   \<and> (shape a = [r, p] \<and> int r = nr \<and> int p \<noteq> np \<longrightarrow>
      fst (get_compile_options env nr np (Some a) us ua ms mi eo fdo)
        = Inl (ValueError (partitions_message env a np)))"
proof -
  have col: "check_device_assignment env nr np a = Inr (a\<lparr>shape := [n, 1]\<rparr>)"
    if "shape a = [n]" "np = 1" "int n = nr"
    using that
    by (auto simp: check_device_assignment_def ndim_def add_axis_def shape_at_def Let_def)
  have col_bad: "check_device_assignment env nr np a
                   = Inl (ValueError (replicas_message env (a\<lparr>shape := [n, 1]\<rparr>) nr))"
    if "shape a = [n]" "np = 1" "int n \<noteq> nr"
    using that
    by (auto simp: check_device_assignment_def ndim_def add_axis_def shape_at_def Let_def
        mismatch_message_def replicas_message_def)
  have ok: "check_device_assignment env nr np a = Inr a"
    if "shape a = [r, p]" "int r = nr" "int p = np"
    using that
    by (auto simp: check_device_assignment_def ndim_def shape_at_def Let_def)
  have bad_r: "check_device_assignment env nr np a = Inl (ValueError (replicas_message env a nr))"
    if "shape a = [r, p]" "int r \<noteq> nr"
    using that
    by (auto simp: check_device_assignment_def ndim_def shape_at_def Let_def
        mismatch_message_def replicas_message_def)
  have bad_p: "check_device_assignment env nr np a
                 = Inl (ValueError (partitions_message env a np))"
    if "shape a = [r, p]" "int r = nr" "int p \<noteq> np"
    using that
    by (auto simp: check_device_assignment_def ndim_def shape_at_def Let_def
        mismatch_message_def partitions_message_def)
  from col ok fst_get_compile_options_error [OF col_bad] fst_get_compile_options_error [OF bad_r]
    fst_get_compile_options_error [OF bad_p]
  show ?thesis by blast
qed

theorem device_assignment_shape_check_witness:
  "fst (get_compile_options (example_env 0 1) 2 1 (Some vector_0_1) True False None None None None)
     = Inr (example_options
              \<lparr>num_replicas := 2, num_partitions := 1,
               executable_build_options :=
                 (executable_build_options example_options)\<lparr>use_spmd_partitioning := True\<rparr>,
               device_assignment :=
                 Some \<lparr>replica_count = 2, computation_count = 1, assigned_ids = [0, 1]\<rparr>,
               profile_version := 1\<rparr>)
   \<and> check_device_assignment (example_env 0 1) 2 1 vector_0_1
       = Inr \<lparr>shape = [2, 1], elems = IntElems [0, 1]\<rparr>
   \<and> fst (get_compile_options (example_env 0 1) 3 1 (Some vector_0_1) True False None None None None)
       = Inl (ValueError (''device_assignment does not match num_replicas: [[0]'' @ [CHR 0x0A]
                          @ '' [1]] vs 3.''))
   \<and> check_device_assignment (example_env 0 1) 1 2 row_0_1 = Inr row_0_1
   \<and> fst (get_compile_options (example_env 0 1) 2 2 (Some row_0_1) True False None None None None)
       = Inl (ValueError ''device_assignment does not match num_replicas: [[0 1]] vs 2.'')
   \<and> fst (get_compile_options (example_env 0 1) 1 1 (Some row_0_1) True False None None None None)
       = Inl (ValueError ''device_assignment does not match num_partitions: [[0 1]] vs 1.'')"
  using device_assignment_shape_check
          [of vector_0_1 2 1 2 "example_env 0 1" True False None None None None]
        device_assignment_shape_check
          [of vector_0_1 2 1 3 "example_env 0 1" True False None None None None]
        device_assignment_shape_check
          [of row_0_1 _ 2 1 "example_env 0 1" True False None None None None 1 2]
        device_assignment_shape_check
          [of row_0_1 _ 2 2 "example_env 0 1" True False None None None None 1 2]
        device_assignment_shape_check
          [of row_0_1 _ 1 1 "example_env 0 1" True False None None None None 1 2]
  by (simp add: vector_0_1_def row_0_1_def example_env_def example_options_def
      replicas_message_def partitions_message_def str_int_def digit_char_def
      get_compile_options_def convert_device_assignment_def create_device_assignment_def
      check_device_assignment_def ndim_def add_axis_def shape_at_def is_object_dtype_def
      resolve_profile_version_def mismatch_message_def Let_def)

text \<open>
  C6 as stated fails in two ways. The assignment \<^verbatim>\<open>[[0, 1]]\<close> of shape (1, 2) with two replicas
  and two partitions raises \<^verbatim>\<open>ValueError\<close> with a message that quotes the array and
  the replica count, and neither the shape (1, 2) nor the shape (2, 2). The assignment
  \<^verbatim>\<open>[0, 1]\<close> of shape (2,) with two replicas and two partitions raises
  \<^verbatim>\<open>IndexError\<close>.
\<close>

theorem device_assignment_shape_check_counterexample:
  "fst (get_compile_options (example_env 0 1) 2 2 (Some row_0_1) True False None None None None)
     = Inl (ValueError ''device_assignment does not match num_replicas: [[0 1]] vs 2.'')
   \<and> \<not> str_contains ''device_assignment does not match num_replicas: [[0 1]] vs 2.'' ''(1, 2)''
   \<and> \<not> str_contains ''device_assignment does not match num_replicas: [[0 1]] vs 2.'' ''(2, 2)''
   \<and> fst (get_compile_options (example_env 0 1) 2 2 (Some vector_0_1) True False None None None None)
       = Inl (IndexError ''tuple index out of range'')"
  by (simp add: vector_0_1_def row_0_1_def example_env_def str_int_def digit_char_def
      get_compile_options_def convert_device_assignment_def
      check_device_assignment_def ndim_def add_axis_def shape_at_def
      mismatch_message_def Let_def)

end
